theory Spec2Isabelle
  imports Complex_Main "HOL-Library.Multiset"
begin

section \<open>Asset allocation dashboard: the allocation engine of \<^verbatim>\<open>src/src/app.py\<close>\<close>

text \<open>
  The development embeds the computing functions of the dashboard, as
  \<^verbatim>\<open>src/src/app.py\<close> defines them: \<^verbatim>\<open>compute_tactical_allocations\<close>,
  \<^verbatim>\<open>input_active_weights\<close>, \<^verbatim>\<open>compute_level_2_tactical_allocations\<close>,
  \<^verbatim>\<open>display_level_2_allocations\<close> (the two tables it builds),
  \<^verbatim>\<open>compute_total_allocations\<close> and the steps of \<^verbatim>\<open>main\<close> that build the level-1
  active weights and call the level-2 functions. The older script \<^verbatim>\<open>src/app.py\<close> runs the
  same steps inline, with the class names \<^verbatim>\<open>Stocks\<close> and \<^verbatim>\<open>Bonds\<close>.

  Numbers. The program computes with Python numbers (the integers and floats of the JSON
  configuration, the floats of the input widgets). The definitions below are polymorphic
  in the number type \<open>'a\<close> and use only the operations the source uses (\<open>+\<close>, \<open>*\<close>,
  \<open>/\<close>, unary minus, the constants 0, 1 and 100), so that every structural theorem
  holds for any arithmetic. Theorems that need laws of arithmetic name the laws in their
  sort constraint (\<open>comm_monoid_add\<close>, \<open>comm_ring_1\<close>, \<open>linordered_field\<close>): they are
  statements about exact arithmetic, and the rounding of IEEE floating point is not
  modelled.

  Dictionaries. A Python \<^verbatim>\<open>dict\<close> keeps its insertion order, and the program depends on
  it (the order of the rows of the tables): a dictionary is an association list, looked
  up with \<open>map_of\<close>. The keys of a Python dictionary are pairwise distinct; theorems
  that need it say so.

  Errors. A missing key raises \<^verbatim>\<open>KeyError\<close> and a list index out of range raises
  \<^verbatim>\<open>IndexError\<close>; a function that can raise returns \<open>py_error + 'a\<close>.
\<close>

subsection \<open>Python values\<close>

datatype py_error = KeyError string | IndexError

type_synonym 'v dict = "(string \<times> 'v) list"

definition keys :: "'v dict \<Rightarrow> string list" where
  "keys d = map fst d"

definition dict_values :: "'v dict \<Rightarrow> 'v list" where
  "dict_values d = map snd d"

text \<open>\<^verbatim>\<open>d[k]\<close>\<close>

definition getitem :: "'v dict \<Rightarrow> string \<Rightarrow> py_error + 'v" where
  "getitem d k = (case map_of d k of None \<Rightarrow> Inl (KeyError k) | Some v \<Rightarrow> Inr v)"

text \<open>
  In the statements of theorems \<open>item d k\<close> stands for the value of \<^verbatim>\<open>d[k]\<close>, where
  the key is present.
\<close>

abbreviation item :: "'v dict \<Rightarrow> string \<Rightarrow> 'v" where
  "item d k \<equiv> the (map_of d k)"

text \<open>\<^verbatim>\<open>xs[i]\<close> for the non-negative indices that \<^verbatim>\<open>enumerate\<close> produces\<close>

definition list_getitem :: "'a list \<Rightarrow> nat \<Rightarrow> py_error + 'a" where
  "list_getitem xs i = (if i < length xs then Inr (xs ! i) else Inl IndexError)"

text \<open>Sequencing of computations that may raise: the first exception ends the evaluation.\<close>

definition bind :: "py_error + 'a \<Rightarrow> ('a \<Rightarrow> py_error + 'b) \<Rightarrow> py_error + 'b" where
  "bind r f = (case r of Inl e \<Rightarrow> Inl e | Inr x \<Rightarrow> f x)"

text \<open>A comprehension \<^verbatim>\<open>[f(x) for x in xs]\<close> whose body may raise\<close>

fun comprehension :: "('a \<Rightarrow> py_error + 'b) \<Rightarrow> 'a list \<Rightarrow> py_error + 'b list" where
  "comprehension f [] = Inr []"
| "comprehension f (x # xs) =
     bind (f x) (\<lambda>y. bind (comprehension f xs) (\<lambda>ys. Inr (y # ys)))"

text \<open>\<^verbatim>\<open>sum\<close>: start at 0, add from the left\<close>

definition py_sum :: "'a::{zero,plus} list \<Rightarrow> 'a" where
  "py_sum xs = foldl (+) 0 xs"

text \<open>
  \<^verbatim>\<open>asset.lower().replace(" ", "_")\<close>, for names written in ASCII (the names of the
  program are \<^verbatim>\<open>Equities\<close>, \<^verbatim>\<open>Fixed Income\<close>, \<^verbatim>\<open>Cash\<close>): the letters A to Z are
  lowered, every other character is kept, and then each space becomes an underscore.
\<close>

definition lower_char :: "char \<Rightarrow> char" where
  "lower_char c =
     (case map_of (zip ''ABCDEFGHIJKLMNOPQRSTUVWXYZ'' ''abcdefghijklmnopqrstuvwxyz'') c of
        Some l \<Rightarrow> l
      | None \<Rightarrow> c)"

definition lower :: "string \<Rightarrow> string" where
  "lower s = map lower_char s"

definition replace_space :: "string \<Rightarrow> string" where
  "replace_space s = map (\<lambda>c. if c = CHR '' '' then CHR ''_'' else c) s"

definition active_key :: "string \<Rightarrow> string" where
  "active_key asset = replace_space (lower asset)"

subsection \<open>Level 1: \<^verbatim>\<open>compute_tactical_allocations\<close>\<close>

text \<open>
  \<^verbatim>\<open>
  return {
      asset: [
          strategic_allocations[asset][i] + multipliers[p] * active_weights[asset.lower().replace(" ", "_")]
          for i, p in enumerate(profiles)
      ]
      for asset in strategic_allocations.keys()
  }
  \<close>
  The three lookups of an entry are evaluated from left to right.
\<close>

definition tactical_entry ::
  "'a::{plus,times} list dict \<Rightarrow> 'a dict \<Rightarrow> 'a dict \<Rightarrow> string \<Rightarrow> nat \<times> string \<Rightarrow> py_error + 'a" where
  "tactical_entry strategic_allocations multipliers active_weights asset ip =
     (case ip of (i, p) \<Rightarrow>
        bind (getitem strategic_allocations asset) (\<lambda>row.
        bind (list_getitem row i) (\<lambda>s.
        bind (getitem multipliers p) (\<lambda>m.
        bind (getitem active_weights (active_key asset)) (\<lambda>w.
        Inr (s + m * w))))))"

definition compute_tactical_allocations ::
  "'a::{plus,times} list dict \<Rightarrow> 'a dict \<Rightarrow> string list \<Rightarrow> 'a dict \<Rightarrow> py_error + 'a list dict" where
  "compute_tactical_allocations strategic_allocations multipliers profiles active_weights =
     comprehension
       (\<lambda>asset.
          bind (comprehension
                  (tactical_entry strategic_allocations multipliers active_weights asset)
                  (enumerate 0 profiles))
               (\<lambda>row. Inr (asset, row)))
       (keys strategic_allocations)"

text \<open>
  The row that the function computes for an asset when no lookup fails (used to state
  what the function returns).
\<close>

definition tactical_row ::
  "'a::{plus,times} list dict \<Rightarrow> 'a dict \<Rightarrow> string list \<Rightarrow> 'a dict \<Rightarrow> string \<Rightarrow> 'a list" where
  "tactical_row strategic multipliers profiles active_weights a =
     map (\<lambda>ip. item strategic a ! fst ip + item multipliers (snd ip) * item active_weights (active_key a))
       (enumerate 0 profiles)"

text \<open>
  The level-1 active weights of \<^verbatim>\<open>main\<close>: the equities weight \<open>w\<close> is the number
  input; \<^verbatim>\<open>moderate_active_weight['fixed_income'] = -1. * moderate_active_weight['equities']\<close>
  and \<^verbatim>\<open>moderate_active_weight['cash'] = 0.0\<close>.
\<close>

definition moderate_active_weight :: "'a::{zero,one,uminus,times} \<Rightarrow> 'a dict" where
  "moderate_active_weight w = [(''equities'', w), (''fixed_income'', - 1 * w), (''cash'', 0)]"


subsection \<open>Level 2: \<^verbatim>\<open>compute_level_2_tactical_allocations\<close>\<close>

text \<open>
  \<^verbatim>\<open>
  return {
      key: base_allocations[key] + active_weights[key]
      for key in base_allocations.keys()
  }
  \<close>
\<close>

definition compute_level_2_tactical_allocations ::
  "'a::plus dict \<Rightarrow> 'a dict \<Rightarrow> py_error + 'a dict" where
  "compute_level_2_tactical_allocations base_allocations active_weights =
     comprehension
       (\<lambda>key.
          bind (getitem base_allocations key) (\<lambda>b.
          bind (getitem active_weights key) (\<lambda>w.
          Inr (key, b + w))))
       (keys base_allocations)"

subsection \<open>The weight validator: \<^verbatim>\<open>input_active_weights\<close>\<close>

text \<open>
  The function draws a subheader and one slider for each column of the one-row table of
  default weights, writes the value of each slider into the table, reports whether the
  row sums to 0 and returns the row as a dictionary:
  \<^verbatim>\<open>
  st.subheader(title)
  active_weights_df = pd.DataFrame(default_weights, index=['Active Weight (%)'])
  for col in active_weights_df.columns:
      active_weights_df.at['Active Weight (%)', col] = st.slider(
          f"{col}", ..., value=active_weights_df.at['Active Weight (%)', col], step=step)
  if active_weights_df.sum(axis=1).values[0] != 0:
      st.error("The sum of active weights must equal 0. Please adjust the weights.")
  else:
      st.success("The sum of active weights is valid.")
  return active_weights_df.iloc[0].to_dict()
  \<close>
  The user is a function \<open>slider\<close>: the label of a slider and the value it starts
  from give the value the user leaves it at (the bounds and the step of the slider, which
  the function only hands to the widget, are the user's concern). What the function
  draws is appended to the list of the events of the page.
\<close>

datatype ui_event = Subheader string | Error string | Success string

definition slider_loop :: "'a dict \<Rightarrow> (string \<Rightarrow> 'a \<Rightarrow> 'a) \<Rightarrow> 'a dict" where
  "slider_loop active_weights_df slider =
     map (\<lambda>cv. case cv of (col, v) \<Rightarrow> (col, slider col v)) active_weights_df"

definition input_active_weights ::
  "'a::{zero,plus} dict \<Rightarrow> string \<Rightarrow> (string \<Rightarrow> 'a \<Rightarrow> 'a) \<Rightarrow> ui_event list
     \<Rightarrow> 'a dict \<times> ui_event list" where
  "input_active_weights default_weights title slider ui =
     (let ui1 = ui @ [Subheader title];
          active_weights_df = slider_loop default_weights slider;
          ui2 = (if py_sum (dict_values active_weights_df) \<noteq> 0
                 then ui1 @ [Error ''The sum of active weights must equal 0. Please adjust the weights.'']
                 else ui1 @ [Success ''The sum of active weights is valid.''])
      in (active_weights_df, ui2))"

text \<open>
  The level-2 step of \<^verbatim>\<open>main\<close> for one group:
  \<^verbatim>\<open>
  equities_style_active = input_active_weights(config["default_equities_active_weight"], "Equities (%)")
  tactical_equities_size_style = compute_level_2_tactical_allocations(equities_size_style, equities_style_active)
  \<close>
\<close>

definition main_level_2 ::
  "'a::{zero,plus} dict \<Rightarrow> 'a dict \<Rightarrow> string \<Rightarrow> (string \<Rightarrow> 'a \<Rightarrow> 'a) \<Rightarrow> ui_event list
     \<Rightarrow> (py_error + 'a dict) \<times> ui_event list" where
  "main_level_2 base_allocations default_weights title slider ui =
     (case input_active_weights default_weights title slider ui of
        (active_weights, ui') \<Rightarrow>
          (compute_level_2_tactical_allocations base_allocations active_weights, ui'))"

subsection \<open>Tables\<close>

text \<open>
  A pandas \<^verbatim>\<open>DataFrame\<close> is its row labels, its column labels and its cells; a cell
  without a value (\<^verbatim>\<open>NaN\<close>) is \<open>None\<close>. The rows are addressed by label, as
  \<^verbatim>\<open>.loc\<close> does. The model is that of tables whose row labels are pairwise distinct: with
  a repeated label \<^verbatim>\<open>.loc\<close> selects several rows at once, which is not modelled, and the
  theorems on tables assume distinct labels.
\<close>

record ('c, 'a) frame =
  index :: "string list"
  columns :: "'c list"
  cells :: "string \<Rightarrow> 'c \<Rightarrow> 'a option"

text \<open>The columns of the level-1 and of the total table are pairs (Profile, Type).\<close>

type_synonym col = "string \<times> string"

text \<open>\<^verbatim>\<open>pd.DataFrame(index=idx, columns=cols)\<close>: every cell is empty\<close>

definition empty_frame :: "string list \<Rightarrow> 'c list \<Rightarrow> ('c, 'a) frame" where
  "empty_frame idx cols = \<lparr>index = idx, columns = cols, cells = (\<lambda>label c. None)\<rparr>"

text \<open>
  \<^verbatim>\<open>pd.DataFrame({'Strategic': strategic, 'Tactical': tactical}, index=strategic.keys())\<close>,
  the two tables of \<^verbatim>\<open>display_level_2_allocations\<close>: a row for each key of the strategic
  dictionary; a key that the tactical dictionary lacks leaves its cell empty.
\<close>

definition level_2_frame :: "'a dict \<Rightarrow> 'a dict \<Rightarrow> (string, 'a) frame" where
  "level_2_frame strategic tactical =
     \<lparr>index = keys strategic,
      columns = [''Strategic'', ''Tactical''],
      cells = (\<lambda>label c.
        if label \<in> set (keys strategic) then
          (if c = ''Strategic'' then map_of strategic label
           else if c = ''Tactical'' then map_of tactical label
           else None)
        else None)\<rparr>"

definition display_level_2_allocations ::
  "'a dict \<Rightarrow> 'a dict \<Rightarrow> 'a dict \<Rightarrow> 'a dict \<Rightarrow> (string, 'a) frame \<times> (string, 'a) frame" where
  "display_level_2_allocations equities_size_style fixed_income_sector tactical_equities
       tactical_fixed_income =
     (level_2_frame equities_size_style tactical_equities,
      level_2_frame fixed_income_sector tactical_fixed_income)"

text \<open>\<^verbatim>\<open>df.loc[label]\<close>: the row, as a series over the columns of the table\<close>

definition loc_row :: "('c, 'a) frame \<Rightarrow> string \<Rightarrow> py_error + ('c \<Rightarrow> 'a option)" where
  "loc_row df label =
     (if label \<in> set (index df)
      then Inr (\<lambda>c. if c \<in> set (columns df) then cells df label c else None)
      else Inl (KeyError label))"

text \<open>
  \<^verbatim>\<open>df.loc[label] = series\<close>: the series is aligned on the columns of the table; a
  label that the table does not have yet adds a row at the end.
\<close>

definition set_row :: "('c, 'a) frame \<Rightarrow> string \<Rightarrow> ('c \<Rightarrow> 'a option) \<Rightarrow> ('c, 'a) frame" where
  "set_row df label series =
     df\<lparr>index := (if label \<in> set (index df) then index df else index df @ [label]),
        cells := (cells df)(label := (\<lambda>c. if c \<in> set (columns df) then series c else None))\<rparr>"

text \<open>\<^verbatim>\<open>df.loc[label, typ]\<close>: one cell of a table whose columns are named by strings\<close>

definition loc_cell :: "(string, 'a) frame \<Rightarrow> string \<Rightarrow> string \<Rightarrow> py_error + 'a option" where
  "loc_cell df label typ =
     (if label \<notin> set (index df) then Inl (KeyError label)
      else if typ \<notin> set (columns df) then Inl (KeyError typ)
      else Inr (cells df label typ))"

text \<open>
  \<^verbatim>\<open>df.loc[label, pd.IndexSlice[:, typ]]\<close>: the cells of the row in the columns whose
  Type is \<open>typ\<close>, as a series over these columns. A Type that no column has is a
  \<^verbatim>\<open>KeyError\<close>.
\<close>

definition loc_slice :: "(col, 'a) frame \<Rightarrow> string \<Rightarrow> string \<Rightarrow> py_error + (col \<Rightarrow> 'a option)" where
  "loc_slice df label typ =
     (if label \<notin> set (index df) then Inl (KeyError label)
      else if typ \<notin> snd ` set (columns df) then Inl (KeyError typ)
      else Inr (\<lambda>c. if c \<in> set (columns df) \<and> snd c = typ then cells df label c else None))"

text \<open>
  \<^verbatim>\<open>df.loc[label, pd.IndexSlice[:, typ]] = series\<close>, for a row the table has: the cells
  of the row in the columns of Type \<open>typ\<close> take the values of the series, the other cells
  stay.
\<close>

definition set_slice ::
  "(col, 'a) frame \<Rightarrow> string \<Rightarrow> string \<Rightarrow> (col \<Rightarrow> 'a option) \<Rightarrow> (col, 'a) frame" where
  "set_slice df label typ series =
     df\<lparr>cells := (cells df)(label :=
          (\<lambda>c. if c \<in> set (columns df) \<and> snd c = typ then series c else cells df label c))\<rparr>"

text \<open>
  \<^verbatim>\<open>own * parent / 100\<close> on cells: an empty cell (\<^verbatim>\<open>NaN\<close>) gives an empty cell.
\<close>

definition cell_scale :: "'a::{times,inverse,numeral} option \<Rightarrow> 'a option \<Rightarrow> 'a option" where
  "cell_scale own parent =
     (case own of
        None \<Rightarrow> None
      | Some a \<Rightarrow> (case parent of None \<Rightarrow> None | Some b \<Rightarrow> Some (a * b / 100)))"

text \<open>A \<^verbatim>\<open>for\<close> loop over a list that updates a state and stops at the first exception\<close>

fun for_each :: "('s \<Rightarrow> 'x \<Rightarrow> py_error + 's) \<Rightarrow> 'x list \<Rightarrow> 's \<Rightarrow> py_error + 's" where
  "for_each body [] s = Inr s"
| "for_each body (x # xs) s = bind (body s x) (for_each body xs)"

subsection \<open>Reconciliation: \<^verbatim>\<open>compute_total_allocations\<close>\<close>

text \<open>
  \<^verbatim>\<open>
  idx = ['Equities'] + equities_df.index.to_list() + ['Fixed Income'] + fixed_income_df.index.to_list() + ['Cash']
  cols = level_1_df.columns
  df_total_allocations = pd.DataFrame(index=idx, columns=cols)
  for lvl1_asset_class in strategic_allocations.keys():
      df_total_allocations.loc[lvl1_asset_class] = level_1_df.loc[lvl1_asset_class]
  for lvl2_asset_class in equities_df.index:
      for typ in ['Strategic', 'Tactical']:
          df_total_allocations.loc[lvl2_asset_class, pd.IndexSlice[:, typ]] = (
              equities_df.loc[lvl2_asset_class, typ] * df_total_allocations.loc['Equities', pd.IndexSlice[:, typ]] / 100
          )
  for lvl2_asset_class in fixed_income_df.index:
      for typ in ['Strategic', 'Tactical']:
          df_total_allocations.loc[lvl2_asset_class, pd.IndexSlice[:, typ]] = (
              fixed_income_df.loc[lvl2_asset_class, typ] * df_total_allocations.loc['Fixed Income', pd.IndexSlice[:, typ]] / 100
          )
  return df_total_allocations
  \<close>
\<close>

definition total_index :: "(string, 'a) frame \<Rightarrow> (string, 'a) frame \<Rightarrow> string list" where
  "total_index equities_df fixed_income_df =
     [''Equities''] @ index equities_df @ [''Fixed Income''] @ index fixed_income_df @ [''Cash'']"

text \<open>The body of the first loop\<close>

definition copy_level_1 ::
  "(col, 'a) frame \<Rightarrow> (col, 'a) frame \<Rightarrow> string \<Rightarrow> py_error + (col, 'a) frame" where
  "copy_level_1 level_1_df df_total_allocations lvl1_asset_class =
     bind (loc_row level_1_df lvl1_asset_class) (\<lambda>series.
     Inr (set_row df_total_allocations lvl1_asset_class series))"

text \<open>
  The body of the inner loops: the right-hand side is evaluated first, from left to
  right, then the cells are written.
\<close>

definition write_level_2 ::
  "(string, 'a::{times,inverse,numeral}) frame \<Rightarrow> string \<Rightarrow> string \<Rightarrow> (col, 'a) frame \<Rightarrow> string
     \<Rightarrow> py_error + (col, 'a) frame" where
  "write_level_2 level_2_df parent lvl2_asset_class df_total_allocations typ =
     bind (loc_cell level_2_df lvl2_asset_class typ) (\<lambda>own.
     bind (loc_slice df_total_allocations parent typ) (\<lambda>series.
     Inr (set_slice df_total_allocations lvl2_asset_class typ
            (\<lambda>c. cell_scale own (series c)))))"

text \<open>The second and the third loop, for the table of one parent class\<close>

definition level_2_loop ::
  "(string, 'a::{times,inverse,numeral}) frame \<Rightarrow> string \<Rightarrow> (col, 'a) frame
     \<Rightarrow> py_error + (col, 'a) frame" where
  "level_2_loop level_2_df parent df_total_allocations =
     for_each
       (\<lambda>df lvl2_asset_class.
          for_each (write_level_2 level_2_df parent lvl2_asset_class)
            [''Strategic'', ''Tactical''] df)
       (index level_2_df) df_total_allocations"

definition compute_total_allocations ::
  "(col, 'a::{times,inverse,numeral}) frame \<Rightarrow> (string, 'a) frame \<Rightarrow> (string, 'a) frame
     \<Rightarrow> 'b dict \<Rightarrow> py_error + (col, 'a) frame" where
  "compute_total_allocations level_1_df equities_df fixed_income_df strategic_allocations =
     (let idx = total_index equities_df fixed_income_df;
          cols = columns level_1_df;
          df_total_allocations = empty_frame idx cols
      in bind (for_each (copy_level_1 level_1_df) (keys strategic_allocations) df_total_allocations)
           (\<lambda>df1.
         bind (level_2_loop equities_df ''Equities'' df1) (\<lambda>df2.
         level_2_loop fixed_income_df ''Fixed Income'' df2)))"

text \<open>
  The tables on which the function is modelled and returns. The row labels of the total
  table are pairwise distinct (no level-2 class is named as another one or as one of
  \<^verbatim>\<open>Equities\<close>, \<^verbatim>\<open>Fixed Income\<close>, \<^verbatim>\<open>Cash\<close>); the level-1 table has a row for every
  level-1 class (otherwise \<^verbatim>\<open>level_1_df.loc\<close> raises); the level-2 tables have the
  columns \<^verbatim>\<open>Strategic\<close> and \<^verbatim>\<open>Tactical\<close>, and the level-1 table has columns of both
  Types (otherwise the level-2 loops raise).
\<close>

definition well_formed_tables ::
  "(col, 'a) frame \<Rightarrow> (string, 'a) frame \<Rightarrow> (string, 'a) frame \<Rightarrow> 'b dict \<Rightarrow> bool" where
  "well_formed_tables level_1_df equities_df fixed_income_df strategic_allocations =
     (distinct (total_index equities_df fixed_income_df) \<and>
      set (keys strategic_allocations) \<subseteq> set (index level_1_df) \<and>
      {''Strategic'', ''Tactical''} \<subseteq> set (columns equities_df) \<and>
      {''Strategic'', ''Tactical''} \<subseteq> set (columns fixed_income_df) \<and>
      {''Strategic'', ''Tactical''} \<subseteq> snd ` set (columns level_1_df))"

text \<open>A column of the total table that the level-2 loops write: its Type is one of the two.\<close>

definition typed :: "col \<Rightarrow> bool" where
  "typed c = (snd c = ''Strategic'' \<or> snd c = ''Tactical'')"


subsection \<open>The scenario of the specification\<close>

text \<open>
  Strategic allocations 70, 60, 50 (equities), 25, 35, 45 (fixed income) and 5, 5, 5 (cash)
  for the profiles Aggressive, Moderate and Conservative, with the multipliers 1.5, 1 and
  0.5; the level-1 table of the Moderate profile with the equities weight 2; two level-2
  tables whose columns sum to 100.
\<close>

definition example_strategic :: "rat list dict" where
  "example_strategic =
     [(''Equities'', [70, 60, 50]), (''Fixed Income'', [25, 35, 45]), (''Cash'', [5, 5, 5])]"

definition example_multipliers :: "rat dict" where
  "example_multipliers = [(''Aggressive'', 3 / 2), (''Moderate'', 1), (''Conservative'', 1 / 2)]"

definition example_level_1 :: "(col, rat) frame" where
  "example_level_1 =
     \<lparr>index = [''Equities'', ''Fixed Income'', ''Cash''],
      columns = [(''Moderate'', ''Strategic''), (''Moderate'', ''Tactical'')],
      cells = (\<lambda>label c. map_of
        [((''Equities'', (''Moderate'', ''Strategic'')), 60),
         ((''Equities'', (''Moderate'', ''Tactical'')), 62),
         ((''Fixed Income'', (''Moderate'', ''Strategic'')), 35),
         ((''Fixed Income'', (''Moderate'', ''Tactical'')), 33),
         ((''Cash'', (''Moderate'', ''Strategic'')), 5),
         ((''Cash'', (''Moderate'', ''Tactical'')), 5)] (label, c))\<rparr>"

definition example_equities :: "(string, rat) frame" where
  "example_equities =
     level_2_frame [(''Large Cap Growth'', 25), (''Small Value'', 75)]
       [(''Large Cap Growth'', 30), (''Small Value'', 70)]"

definition example_fixed_income :: "(string, rat) frame" where
  "example_fixed_income =
     level_2_frame [(''High Yield'', 40), (''International'', 60)]
       [(''High Yield'', 45), (''International'', 55)]"

text \<open>
  A level-1 class \<^verbatim>\<open>Tech\<close> next to a sub-class of Equities with the same name: the row
  labels of the total table are still pairwise distinct.
\<close>

definition collision_strategic :: "rat list dict" where
  "collision_strategic =
     [(''Equities'', [50]), (''Fixed Income'', [35]), (''Cash'', [5]), (''Tech'', [10])]"

definition collision_level_1 :: "(col, rat) frame" where
  "collision_level_1 =
     \<lparr>index = [''Equities'', ''Fixed Income'', ''Cash'', ''Tech''],
      columns = [(''Moderate'', ''Strategic''), (''Moderate'', ''Tactical'')],
      cells = (\<lambda>label c. map_of
        [((''Equities'', (''Moderate'', ''Strategic'')), 50),
         ((''Equities'', (''Moderate'', ''Tactical'')), 52),
         ((''Fixed Income'', (''Moderate'', ''Strategic'')), 35),
         ((''Fixed Income'', (''Moderate'', ''Tactical'')), 33),
         ((''Cash'', (''Moderate'', ''Strategic'')), 5),
         ((''Cash'', (''Moderate'', ''Tactical'')), 5),
         ((''Tech'', (''Moderate'', ''Strategic'')), 10),
         ((''Tech'', (''Moderate'', ''Tactical'')), 10)] (label, c))\<rparr>"

definition collision_equities :: "(string, rat) frame" where
  "collision_equities =
     level_2_frame [(''Tech'', 40), (''Small Value'', 60)] [(''Tech'', 45), (''Small Value'', 55)]"

text \<open>A cell of the table that a computation returns\<close>

definition result_cell :: "py_error + ('c, 'a) frame \<Rightarrow> string \<Rightarrow> 'c \<Rightarrow> py_error + 'a option" where
  "result_cell r label c = bind r (\<lambda>df. Inr (cells df label c))"

section \<open>Theorems\<close>

subsection \<open>Exceptions, comprehensions and dictionaries\<close>

lemma bind_Inr [simp]: "bind (Inr x) f = f x"
  by (simp add: bind_def)

lemma bind_Inl [simp]: "bind (Inl e) f = Inl e"
  by (simp add: bind_def)

lemma comprehension_Inr:
  "(\<And>x. x \<in> set xs \<Longrightarrow> f x = Inr (g x)) \<Longrightarrow> comprehension f xs = Inr (map g xs)"
  by (induction xs) simp_all

lemma getitem_Inr: "k \<in> set (keys d) \<Longrightarrow> getitem d k = Inr (item d k)"
  by (cases "map_of d k") (auto simp: getitem_def keys_def map_of_eq_None_iff)

lemma getitem_Inl: "k \<notin> set (keys d) \<Longrightarrow> getitem d k = Inl (KeyError k)"
  by (cases "map_of d k")
    (auto simp: getitem_def keys_def map_of_eq_None_iff [symmetric] simp del: map_of_eq_None_iff)

lemma item_map_keys: "a \<in> set ks \<Longrightarrow> item (map (\<lambda>k. (k, f k)) ks) a = f a"
  by (simp add: map_of_map_restrict)

lemma keys_map_keys [simp]: "keys (map (\<lambda>k. (k, f k)) ks) = ks"
  by (simp add: keys_def comp_def)

lemma dict_values_map_keys [simp]: "dict_values (map (\<lambda>k. (k, f k)) ks) = map f ks"
  by (simp add: dict_values_def comp_def)




subsection \<open>Level 1\<close>

lemma enumerate_setD:
  "ip \<in> set (enumerate 0 ps) \<Longrightarrow> fst ip < length ps \<and> snd ip = ps ! fst ip"
  by (cases ip) (auto simp: in_set_enumerate_eq)

lemma tactical_entry_Inr:
  assumes "a \<in> set (keys strategic)" "i < length (item strategic a)"
    and "p \<in> set (keys multipliers)" "active_key a \<in> set (keys active_weights)"
  shows "tactical_entry strategic multipliers active_weights a (i, p) =
     Inr (item strategic a ! i + item multipliers p * item active_weights (active_key a))"
  using assms by (simp add: tactical_entry_def getitem_Inr list_getitem_def)

lemma compute_tactical_allocations_Inr:
  assumes prof: "set profiles \<subseteq> set (keys multipliers)"
    and act: "\<forall>a\<in>set (keys strategic). active_key a \<in> set (keys active_weights)"
    and len: "\<forall>a\<in>set (keys strategic). length profiles \<le> length (item strategic a)"
  shows "compute_tactical_allocations strategic multipliers profiles active_weights =
     Inr (map (\<lambda>a. (a, tactical_row strategic multipliers profiles active_weights a)) (keys strategic))"
proof -
  have row: "comprehension (tactical_entry strategic multipliers active_weights a) (enumerate 0 profiles)
      = Inr (tactical_row strategic multipliers profiles active_weights a)"
    if a: "a \<in> set (keys strategic)" for a
    unfolding tactical_row_def
  proof (rule comprehension_Inr)
    fix ip assume "ip \<in> set (enumerate 0 profiles)"
    then have i: "fst ip < length profiles" and p: "snd ip = profiles ! fst ip"
      using enumerate_setD by blast+
    from i p prof have "snd ip \<in> set (keys multipliers)" by auto
    moreover from i len a have "fst ip < length (item strategic a)" by fastforce
    ultimately have "tactical_entry strategic multipliers active_weights a (fst ip, snd ip) =
       Inr (item strategic a ! fst ip + item multipliers (snd ip) * item active_weights (active_key a))"
      using a act by (intro tactical_entry_Inr) auto
    then show "tactical_entry strategic multipliers active_weights a ip =
       Inr (item strategic a ! fst ip + item multipliers (snd ip) * item active_weights (active_key a))"
      by simp
  qed
  show ?thesis
    unfolding compute_tactical_allocations_def
    by (rule comprehension_Inr) (simp add: row)
qed

lemma length_tactical_row [simp]: "length (tactical_row s m ps w a) = length ps"
  by (simp add: tactical_row_def)

lemma nth_tactical_row:
  "i < length ps \<Longrightarrow>
   tactical_row s m ps w a ! i = item s a ! i + item m (ps ! i) * item w (active_key a)"
  by (simp add: tactical_row_def nth_enumerate_eq)

lemma active_key_names:
  "active_key ''Equities'' = ''equities''"
  "active_key ''Fixed Income'' = ''fixed_income''"
  "active_key ''Cash'' = ''cash''"
  by (simp_all add: active_key_def lower_def replace_space_def lower_char_def)

text \<open>
  Claim C1, as amended. When every profile is a key of the multipliers, the key derived
  from every asset class (\<open>active_key\<close>: lowered, spaces replaced by underscores) is a key
  of the active weights, and every strategic sequence has one entry for each profile,
  \<^verbatim>\<open>compute_tactical_allocations\<close> returns a table with the keys of the strategic table
  in their order and sequences of the same lengths, and for each asset class \<open>a\<close> and
  each profile at position \<open>i\<close> the entry is
  \<open>strategic[a][i] + multipliers[profiles[i]] * active_weights[active_key a]\<close>.
\<close>

theorem compute_tactical_allocations_formula:
  assumes prof: "set profiles \<subseteq> set (keys multipliers)"
    and act: "\<forall>a\<in>set (keys strategic). active_key a \<in> set (keys active_weights)"
    and len: "\<forall>a\<in>set (keys strategic). length (item strategic a) = length profiles"
  shows "\<exists>tactical.
     compute_tactical_allocations strategic multipliers profiles active_weights = Inr tactical \<and>
     keys tactical = keys strategic \<and>
     (\<forall>a\<in>set (keys strategic).
        length (item tactical a) = length (item strategic a) \<and>
        (\<forall>i<length profiles.
           item tactical a ! i =
           item strategic a ! i + item multipliers (profiles ! i) * item active_weights (active_key a)))"
proof -
  let ?t = "map (\<lambda>a. (a, tactical_row strategic multipliers profiles active_weights a)) (keys strategic)"
  from len have "\<forall>a\<in>set (keys strategic). length profiles \<le> length (item strategic a)" by simp
  with prof act have "compute_tactical_allocations strategic multipliers profiles active_weights = Inr ?t"
    by (rule compute_tactical_allocations_Inr)
  moreover have "keys ?t = keys strategic" by simp
  moreover have "length (item ?t a) = length (item strategic a)" if "a \<in> set (keys strategic)" for a
    using that len by (simp add: item_map_keys)
  moreover have "item ?t a ! i =
      item strategic a ! i + item multipliers (profiles ! i) * item active_weights (active_key a)"
    if "a \<in> set (keys strategic)" "i < length profiles" for a i
    using that by (simp add: item_map_keys nth_tactical_row)
  ultimately show ?thesis by blast
qed

theorem compute_tactical_allocations_formula_counterexample:
  "compute_tactical_allocations [(''Equities'', [70, 60, 50 :: int])] [(''Moderate'', 1)]
       [''Moderate''] [(''equities'', 2)] = Inr [(''Equities'', [72])]
   \<and> length (item [(''Equities'', [72 :: int])] ''Equities'')
       \<noteq> length (item [(''Equities'', [70, 60, 50 :: int])] ''Equities'')"
  by (simp add: compute_tactical_allocations_def tactical_entry_def keys_def getitem_def
      list_getitem_def active_key_names enumerate_eq_zip)

theorem compute_tactical_allocations_formula_witness:
  "\<exists>tactical.
     compute_tactical_allocations example_strategic example_multipliers
       [''Aggressive'', ''Moderate'', ''Conservative''] (moderate_active_weight 2) = Inr tactical \<and>
     keys tactical = [''Equities'', ''Fixed Income'', ''Cash''] \<and>
     length (item tactical ''Fixed Income'') = 3 \<and>
     item tactical ''Equities'' ! 0 = 73 \<and>
     item tactical ''Equities'' ! 1 = 62 \<and>
     item tactical ''Fixed Income'' ! 2 = 44"
proof -
  have 1: "set [''Aggressive'', ''Moderate'', ''Conservative''] \<subseteq> set (keys example_multipliers)"
    by (simp add: keys_def example_multipliers_def)
  have 2: "\<forall>a\<in>set (keys example_strategic). active_key a \<in> set (keys (moderate_active_weight (2 :: rat)))"
    by (simp add: keys_def example_strategic_def active_key_names moderate_active_weight_def)
  have 3: "\<forall>a\<in>set (keys example_strategic).
      length (item example_strategic a) = length [''Aggressive'', ''Moderate'', ''Conservative'']"
    by (simp add: keys_def example_strategic_def)
  from compute_tactical_allocations_formula [OF 1 2 3] obtain tactical where
    r: "compute_tactical_allocations example_strategic example_multipliers
       [''Aggressive'', ''Moderate'', ''Conservative''] (moderate_active_weight 2) = Inr tactical"
    and k: "keys tactical = keys example_strategic"
    and f: "\<forall>a\<in>set (keys example_strategic).
        length (item tactical a) = length (item example_strategic a) \<and>
        (\<forall>i<length [''Aggressive'', ''Moderate'', ''Conservative''].
           item tactical a ! i =
           item example_strategic a ! i +
           item example_multipliers ([''Aggressive'', ''Moderate'', ''Conservative''] ! i) *
           item (moderate_active_weight 2) (active_key a))"
    by blast
  have e: "''Equities'' \<in> set (keys example_strategic)" "''Fixed Income'' \<in> set (keys example_strategic)"
    by (simp_all add: keys_def example_strategic_def)
  from f e(1) have "item tactical ''Equities'' ! 0 = 73" "item tactical ''Equities'' ! 1 = 62"
    by (simp_all add: example_strategic_def example_multipliers_def moderate_active_weight_def
        active_key_names)
  moreover from f e(2) have "item tactical ''Fixed Income'' ! 2 = 44"
    "length (item tactical ''Fixed Income'') = 3"
    by (simp_all add: example_strategic_def example_multipliers_def moderate_active_weight_def
        active_key_names)
  moreover from k have "keys tactical = [''Equities'', ''Fixed Income'', ''Cash'']"
    by (simp add: keys_def example_strategic_def)
  ultimately show ?thesis using r by blast
qed

text \<open>
  Claim C8, as amended. \<^verbatim>\<open>compute_tactical_allocations\<close> returns without raising when
  every profile is a key of the multipliers, the derived key of every asset class is a key
  of the active weights and every strategic sequence has at least one entry for each
  profile. Nothing checks the order of the profiles: with the profiles in any other order
  the call returns as well, and position \<open>i\<close> of every strategic sequence is combined with
  the multiplier of the profile that now stands at position \<open>i\<close>.
\<close>

theorem compute_tactical_allocations_returns:
  assumes prof: "set profiles \<subseteq> set (keys multipliers)"
    and act: "\<forall>a\<in>set (keys strategic). active_key a \<in> set (keys active_weights)"
    and len: "\<forall>a\<in>set (keys strategic). length profiles \<le> length (item strategic a)"
    and perm: "mset reordered = mset profiles"
  shows "(\<exists>tactical.
       compute_tactical_allocations strategic multipliers profiles active_weights = Inr tactical) \<and>
     (\<exists>misaligned.
       compute_tactical_allocations strategic multipliers reordered active_weights = Inr misaligned \<and>
       (\<forall>a\<in>set (keys strategic). \<forall>i<length reordered.
          item misaligned a ! i =
          item strategic a ! i + item multipliers (reordered ! i) * item active_weights (active_key a)))"
proof -
  let ?t = "map (\<lambda>a. (a, tactical_row strategic multipliers reordered active_weights a)) (keys strategic)"
  from perm have s: "set reordered = set profiles" and l: "length reordered = length profiles"
    by (metis set_mset_mset, metis size_mset)
  from prof act len
  have "compute_tactical_allocations strategic multipliers profiles active_weights =
      Inr (map (\<lambda>a. (a, tactical_row strategic multipliers profiles active_weights a)) (keys strategic))"
    by (rule compute_tactical_allocations_Inr)
  moreover from prof act len s l
  have "compute_tactical_allocations strategic multipliers reordered active_weights = Inr ?t"
    by (intro compute_tactical_allocations_Inr) simp_all
  moreover have "item ?t a ! i =
      item strategic a ! i + item multipliers (reordered ! i) * item active_weights (active_key a)"
    if "a \<in> set (keys strategic)" "i < length reordered" for a i
    using that by (simp add: item_map_keys nth_tactical_row)
  ultimately show ?thesis by blast
qed

theorem compute_tactical_allocations_returns_counterexample:
  "compute_tactical_allocations [(''Equities'', [60 :: int])] [] [''Moderate'']
       [(''equities'', 2)] = Inl (KeyError ''Moderate'')"
  by (simp add: compute_tactical_allocations_def tactical_entry_def keys_def getitem_def
      list_getitem_def active_key_names enumerate_eq_zip)

theorem compute_tactical_allocations_returns_witness:
  "(\<exists>tactical.
      compute_tactical_allocations example_strategic example_multipliers
        [''Aggressive'', ''Moderate'', ''Conservative''] (moderate_active_weight 2) = Inr tactical) \<and>
   (\<exists>misaligned.
      compute_tactical_allocations example_strategic example_multipliers
        [''Conservative'', ''Moderate'', ''Aggressive''] (moderate_active_weight 2) = Inr misaligned \<and>
      item misaligned ''Equities'' ! 0 = 71)"
proof -
  have 1: "set [''Aggressive'', ''Moderate'', ''Conservative''] \<subseteq> set (keys example_multipliers)"
    by (simp add: keys_def example_multipliers_def)
  have 2: "\<forall>a\<in>set (keys example_strategic). active_key a \<in> set (keys (moderate_active_weight (2 :: rat)))"
    by (simp add: keys_def example_strategic_def active_key_names moderate_active_weight_def)
  have 3: "\<forall>a\<in>set (keys example_strategic).
      length [''Aggressive'', ''Moderate'', ''Conservative''] \<le> length (item example_strategic a)"
    by (simp add: keys_def example_strategic_def)
  have 4: "mset [''Conservative'', ''Moderate'', ''Aggressive''] =
      mset [''Aggressive'', ''Moderate'', ''Conservative'']"
    by (simp add: add_mset_commute)
  have e: "''Equities'' \<in> set (keys example_strategic)"
    by (simp add: keys_def example_strategic_def)
  from compute_tactical_allocations_returns [OF 1 2 3 4] e show ?thesis
    by (auto simp: example_strategic_def example_multipliers_def moderate_active_weight_def
        active_key_names)
qed





subsection \<open>Level 2\<close>


lemma compute_level_2_tactical_allocations_Inl:
  assumes "k \<in> set (keys base)" "k \<notin> set (keys active_weights)"
  shows "\<exists>k'. compute_level_2_tactical_allocations base active_weights = Inl (KeyError k')"
proof -
  let ?f = "\<lambda>key. bind (getitem base key) (\<lambda>b. bind (getitem active_weights key) (\<lambda>w. Inr (key, b + w)))"
  have "\<exists>k'. comprehension ?f ks = Inl (KeyError k')"
    if "k \<in> set ks" "set ks \<subseteq> set (keys base)" for ks
    using that
  proof (induction ks)
    case Nil
    then show ?case by simp
  next
    case (Cons x ks)
    show ?case
    proof (cases "x \<in> set (keys active_weights)")
      case False
      with Cons.prems have "?f x = Inl (KeyError x)"
        by (simp add: getitem_Inr getitem_Inl)
      then show ?thesis by simp
    next
      case True
      with Cons.prems assms(2) have "k \<in> set ks" by auto
      with Cons.IH Cons.prems obtain k' where "comprehension ?f ks = Inl (KeyError k')" by auto
      moreover from True Cons.prems have "?f x = Inr (x, item base x + item active_weights x)"
        by (simp add: getitem_Inr)
      ultimately show ?thesis by simp
    qed
  qed
  with assms(1) show ?thesis
    unfolding compute_level_2_tactical_allocations_def by blast
qed



text \<open>
  Claim C7: a mismatch of the key sets in either direction is fatal. The function raises
  \<^verbatim>\<open>KeyError\<close> when the active weights lack a key of the baseline
  (\<open>compute_level_2_tactical_allocations_Inl\<close>), but a key of the active weights that the
  baseline lacks is ignored: for the baseline \<^verbatim>\<open>{a: 10}\<close> and the active weights
  \<^verbatim>\<open>{a: 1, b: -1}\<close> the function returns \<^verbatim>\<open>{a: 11}\<close>, where its docstring announces
  a \<^verbatim>\<open>KeyError\<close>.
\<close>

theorem compute_level_2_tactical_allocations_extra_key:
  "compute_level_2_tactical_allocations [(''a'', 10::int)] [(''a'', 1), (''b'', - 1)] =
     Inr [(''a'', 11)]"
  by (simp add: compute_level_2_tactical_allocations_def keys_def getitem_def)

subsection \<open>The weight validator\<close>

text \<open>
  Claim C6. \<^verbatim>\<open>input_active_weights\<close> reports success exactly when the values it returns
  sum to 0, with no tolerance; it reports the error for the weights \<^verbatim>\<open>{a: 3, b: -2}\<close> and
  success for \<^verbatim>\<open>{a: 5, b: -5}\<close>.
\<close>

theorem input_active_weights_status:
  "(snd (input_active_weights default_weights title slider ui) =
      ui @ [Subheader title, Success ''The sum of active weights is valid.'']
    \<longleftrightarrow> py_sum (dict_values (fst (input_active_weights default_weights title slider ui))) = 0) \<and>
   snd (input_active_weights [(''a'', 0::int), (''b'', 0)] title
          (\<lambda>col v. if col = ''a'' then 3 else - 2) ui) =
      ui @ [Subheader title,
            Error ''The sum of active weights must equal 0. Please adjust the weights.''] \<and>
   snd (input_active_weights [(''a'', 0::int), (''b'', 0)] title
          (\<lambda>col v. if col = ''a'' then 5 else - 5) ui) =
      ui @ [Subheader title, Success ''The sum of active weights is valid.'']"
  by (simp add: input_active_weights_def Let_def slider_loop_def dict_values_def py_sum_def)

text \<open>
  Claim C9. \<^verbatim>\<open>input_active_weights\<close> returns the values of the sliders whatever the sum
  check says, and the level-2 tactical allocations of \<^verbatim>\<open>main\<close> are those that
  \<^verbatim>\<open>compute_level_2_tactical_allocations\<close> computes from the values of the sliders: the
  check only adds a message to the page.
\<close>

theorem input_active_weights_advisory:
  "fst (input_active_weights default_weights title slider ui) = slider_loop default_weights slider \<and>
   fst (main_level_2 base default_weights title slider ui) =
     compute_level_2_tactical_allocations base (slider_loop default_weights slider) \<and>
   snd (main_level_2 base default_weights title slider ui) =
     snd (input_active_weights default_weights title slider ui)"
  by (simp add: input_active_weights_def main_level_2_def Let_def)

text \<open>
  Weights that fail the check: the error is shown and the level-2 allocations are computed.
\<close>

lemma main_level_2_invalid_weights:
  "main_level_2 [(''a'', 40 :: int), (''b'', 60)] [(''a'', 0), (''b'', 0)] ''Equities (%)''
     (\<lambda>col v. if col = ''a'' then 3 else - 2) [] =
   (Inr [(''a'', 43), (''b'', 58)],
    [Subheader ''Equities (%)'',
     Error ''The sum of active weights must equal 0. Please adjust the weights.''])"
  by (simp add: main_level_2_def input_active_weights_def Let_def slider_loop_def dict_values_def
      py_sum_def compute_level_2_tactical_allocations_def keys_def getitem_def)

subsection \<open>Reconciliation\<close>

lemma set_row_simps [simp]:
  "columns (set_row df l s) = columns df"
  "set (index (set_row df l s)) = insert l (set (index df))"
  "cells (set_row df l s) l' =
     (if l' = l then (\<lambda>c. if c \<in> set (columns df) then s c else None) else cells df l')"
  by (auto simp: set_row_def)

lemma set_slice_simps [simp]:
  "columns (set_slice df l typ s) = columns df"
  "index (set_slice df l typ s) = index df"
  "cells (set_slice df l typ s) l' =
     (if l' = l then (\<lambda>c. if c \<in> set (columns df) \<and> snd c = typ then s c else cells df l c)
      else cells df l')"
  by (auto simp: set_slice_def)

lemma empty_frame_simps [simp]:
  "columns (empty_frame idx cols) = cols"
  "index (empty_frame idx cols) = idx"
  "cells (empty_frame idx cols) l c = None"
  by (simp_all add: empty_frame_def)

lemma copy_level_1_loop:
  assumes "set ks \<subseteq> set (index level_1_df)"
  shows "\<exists>t'. for_each (copy_level_1 level_1_df) ks t = Inr t' \<and>
     columns t' = columns t \<and>
     set (index t') = set (index t) \<union> set ks \<and>
     (\<forall>l c. cells t' l c =
        (if l \<in> set ks
         then (if c \<in> set (columns t) \<and> c \<in> set (columns level_1_df) then cells level_1_df l c else None)
         else cells t l c))"
  using assms
proof (induction ks arbitrary: t)
  case Nil
  then show ?case by simp
next
  case (Cons k ks)
  let ?t1 = "set_row t k (\<lambda>c. if c \<in> set (columns level_1_df) then cells level_1_df k c else None)"
  from Cons.prems have k: "k \<in> set (index level_1_df)" and ks: "set ks \<subseteq> set (index level_1_df)"
    by simp_all
  from k have step: "copy_level_1 level_1_df t k = Inr ?t1"
    by (simp add: copy_level_1_def loc_row_def)
  from Cons.IH [OF ks, of ?t1] obtain t' where
    t': "for_each (copy_level_1 level_1_df) ks ?t1 = Inr t'"
    and c: "columns t' = columns ?t1"
    and i: "set (index t') = set (index ?t1) \<union> set ks"
    and v: "\<forall>l c. cells t' l c =
        (if l \<in> set ks
         then (if c \<in> set (columns ?t1) \<and> c \<in> set (columns level_1_df) then cells level_1_df l c else None)
         else cells ?t1 l c)"
    by blast
  have "for_each (copy_level_1 level_1_df) (k # ks) t = Inr t'"
    using step t' by simp
  moreover have "columns t' = columns t" using c by simp
  moreover have "set (index t') = set (index t) \<union> set (k # ks)" using i by auto
  moreover have "\<forall>l c. cells t' l c =
        (if l \<in> set (k # ks)
         then (if c \<in> set (columns t) \<and> c \<in> set (columns level_1_df) then cells level_1_df l c else None)
         else cells t l c)"
    using v by simp
  ultimately show ?case by blast
qed

lemma write_level_2_Inr:
  assumes "s \<in> set (index level_2_df)" "typ \<in> set (columns level_2_df)"
    and "parent \<in> set (index t)" "typ \<in> snd ` set (columns t)"
  shows "write_level_2 level_2_df parent s t typ =
     Inr (set_slice t s typ (\<lambda>c. cell_scale (cells level_2_df s typ)
            (if c \<in> set (columns t) \<and> snd c = typ then cells t parent c else None)))"
  using assms by (simp add: write_level_2_def loc_cell_def loc_slice_def)

lemma level_2_inner_loop:
  assumes s: "s \<in> set (index level_2_df)"
    and cols2: "{''Strategic'', ''Tactical''} \<subseteq> set (columns level_2_df)"
    and p: "parent \<in> set (index t)"
    and cols: "{''Strategic'', ''Tactical''} \<subseteq> snd ` set (columns t)"
    and ne: "s \<noteq> parent"
  shows "\<exists>t'. for_each (write_level_2 level_2_df parent s) [''Strategic'', ''Tactical''] t = Inr t' \<and>
     columns t' = columns t \<and> index t' = index t \<and>
     (\<forall>l c. cells t' l c =
        (if l = s \<and> c \<in> set (columns t) \<and> typed c
         then cell_scale (cells level_2_df s (snd c)) (cells t parent c)
         else cells t l c))"
proof -
  let ?f = "\<lambda>t typ. (\<lambda>c. cell_scale (cells level_2_df s typ)
            (if c \<in> set (columns t) \<and> snd c = typ then cells t parent c else None))"
  let ?t1 = "set_slice t s ''Strategic'' (?f t ''Strategic'')"
  let ?t2 = "set_slice ?t1 s ''Tactical'' (?f ?t1 ''Tactical'')"
  have 1: "write_level_2 level_2_df parent s t ''Strategic'' = Inr ?t1"
    using s cols2 p cols by (intro write_level_2_Inr) auto
  have 2: "write_level_2 level_2_df parent s ?t1 ''Tactical'' = Inr ?t2"
    using s cols2 p cols by (intro write_level_2_Inr) auto
  have "for_each (write_level_2 level_2_df parent s) [''Strategic'', ''Tactical''] t = Inr ?t2"
    using 1 2 by simp
  moreover have "columns ?t2 = columns t" "index ?t2 = index t" by simp_all
  moreover have "\<forall>l c. cells ?t2 l c =
        (if l = s \<and> c \<in> set (columns t) \<and> typed c
         then cell_scale (cells level_2_df s (snd c)) (cells t parent c)
         else cells t l c)"
    using ne by (auto simp: typed_def)
  ultimately show ?thesis by blast
qed

lemma level_2_loop_Inr:
  assumes ss: "set ss \<subseteq> set (index level_2_df)"
    and cols2: "{''Strategic'', ''Tactical''} \<subseteq> set (columns level_2_df)"
    and p: "parent \<in> set (index t)"
    and cols: "{''Strategic'', ''Tactical''} \<subseteq> snd ` set (columns t)"
    and ne: "parent \<notin> set ss"
  shows "\<exists>t'. for_each
         (\<lambda>df lvl2_asset_class.
            for_each (write_level_2 level_2_df parent lvl2_asset_class) [''Strategic'', ''Tactical''] df)
         ss t = Inr t' \<and>
     columns t' = columns t \<and> index t' = index t \<and>
     (\<forall>l c. cells t' l c =
        (if l \<in> set ss \<and> c \<in> set (columns t) \<and> typed c
         then cell_scale (cells level_2_df l (snd c)) (cells t parent c)
         else cells t l c))"
  using ss p cols ne
proof (induction ss arbitrary: t)
  case Nil
  then show ?case by simp
next
  case (Cons s ss)
  let ?inner = "\<lambda>df lvl2_asset_class.
     for_each (write_level_2 level_2_df parent lvl2_asset_class) [''Strategic'', ''Tactical''] df"
  from Cons.prems have s: "s \<in> set (index level_2_df)" and sne: "s \<noteq> parent"
    and ss: "set ss \<subseteq> set (index level_2_df)" and pss: "parent \<notin> set ss"
    by auto
  from level_2_inner_loop [OF s cols2 Cons.prems(2) Cons.prems(3) sne]
  obtain t1 where t1: "?inner t s = Inr t1"
    and c1: "columns t1 = columns t" and i1: "index t1 = index t"
    and v1: "\<forall>l c. cells t1 l c =
        (if l = s \<and> c \<in> set (columns t) \<and> typed c
         then cell_scale (cells level_2_df s (snd c)) (cells t parent c)
         else cells t l c)"
    by blast
  have p1: "parent \<in> set (index t1)" using Cons.prems(2) i1 by simp
  have cols1: "{''Strategic'', ''Tactical''} \<subseteq> snd ` set (columns t1)"
    using Cons.prems(3) c1 by simp
  from Cons.IH [OF ss p1 cols1 pss]
  obtain t' where t': "for_each ?inner ss t1 = Inr t'"
    and c': "columns t' = columns t1" and i': "index t' = index t1"
    and v': "\<forall>l c. cells t' l c =
        (if l \<in> set ss \<and> c \<in> set (columns t1) \<and> typed c
         then cell_scale (cells level_2_df l (snd c)) (cells t1 parent c)
         else cells t1 l c)"
    by blast
  have "for_each ?inner (s # ss) t = Inr t'" using t1 t' by simp
  moreover have "columns t' = columns t" "index t' = index t"
    using c' c1 i' i1 by simp_all
  moreover have "\<forall>l c. cells t' l c =
        (if l \<in> set (s # ss) \<and> c \<in> set (columns t) \<and> typed c
         then cell_scale (cells level_2_df l (snd c)) (cells t parent c)
         else cells t l c)"
    using v' v1 c1 sne by auto
  ultimately show ?case by blast
qed


lemma well_formed_tablesD:
  assumes "well_formed_tables level_1_df equities_df fixed_income_df strategic"
  shows "''Equities'' \<notin> set (index equities_df)"
    and "''Fixed Income'' \<notin> set (index equities_df)"
    and "''Fixed Income'' \<notin> set (index fixed_income_df)"
    and "set (index equities_df) \<inter> set (index fixed_income_df) = {}"
    and "distinct (index equities_df)" and "distinct (index fixed_income_df)"
    and "set (keys strategic) \<subseteq> set (index level_1_df)"
    and "{''Strategic'', ''Tactical''} \<subseteq> set (columns equities_df)"
    and "{''Strategic'', ''Tactical''} \<subseteq> set (columns fixed_income_df)"
    and "{''Strategic'', ''Tactical''} \<subseteq> snd ` set (columns level_1_df)"
    and "''Equities'' \<notin> set (index fixed_income_df)"
  using assms unfolding well_formed_tables_def total_index_def by auto

lemma compute_total_allocations_Inr:
  assumes wf: "well_formed_tables level_1_df equities_df fixed_income_df strategic"
  shows "\<exists>total.
     compute_total_allocations level_1_df equities_df fixed_income_df strategic = Inr total \<and>
     columns total = columns level_1_df \<and>
     (\<forall>l c. c \<in> set (columns level_1_df) \<longrightarrow> cells total l c =
        (if l \<in> set (index fixed_income_df) \<and> typed c
         then cell_scale (cells fixed_income_df l (snd c))
                (if ''Fixed Income'' \<in> set (keys strategic) then cells level_1_df ''Fixed Income'' c else None)
         else if l \<in> set (index equities_df) \<and> typed c
         then cell_scale (cells equities_df l (snd c))
                (if ''Equities'' \<in> set (keys strategic) then cells level_1_df ''Equities'' c else None)
         else if l \<in> set (keys strategic) then cells level_1_df l c
         else None))"
proof -
  note d = well_formed_tablesD [OF wf]
  let ?idx = "total_index equities_df fixed_income_df"
  let ?cols = "columns level_1_df"
  let ?t0 = "empty_frame ?idx ?cols :: (col, 'a) frame"
  from copy_level_1_loop [OF d(7), of ?t0]
  obtain t1 where t1: "for_each (copy_level_1 level_1_df) (keys strategic) ?t0 = Inr t1"
    and c1: "columns t1 = ?cols"
    and i1: "set (index t1) = set ?idx \<union> set (keys strategic)"
    and v1: "\<forall>l c. cells t1 l c =
        (if l \<in> set (keys strategic)
         then (if c \<in> set ?cols then cells level_1_df l c else None)
         else None)"
    by auto
  have p1: "''Equities'' \<in> set (index t1)" using i1 by (simp add: total_index_def)
  have cols1: "{''Strategic'', ''Tactical''} \<subseteq> snd ` set (columns t1)" using d(10) c1 by simp
  from level_2_loop_Inr [OF subset_refl d(8) p1 cols1 d(1)]
  obtain t2 where t2: "level_2_loop equities_df ''Equities'' t1 = Inr t2"
    and c2: "columns t2 = columns t1" and i2: "index t2 = index t1"
    and v2: "\<forall>l c. cells t2 l c =
        (if l \<in> set (index equities_df) \<and> c \<in> set (columns t1) \<and> typed c
         then cell_scale (cells equities_df l (snd c)) (cells t1 ''Equities'' c)
         else cells t1 l c)"
    unfolding level_2_loop_def by blast
  have p2: "''Fixed Income'' \<in> set (index t2)" using i1 i2 by (simp add: total_index_def)
  have cols2: "{''Strategic'', ''Tactical''} \<subseteq> snd ` set (columns t2)" using cols1 c2 by simp
  from level_2_loop_Inr [OF subset_refl d(9) p2 cols2 d(3)]
  obtain t3 where t3: "level_2_loop fixed_income_df ''Fixed Income'' t2 = Inr t3"
    and c3: "columns t3 = columns t2" and i3: "index t3 = index t2"
    and v3: "\<forall>l c. cells t3 l c =
        (if l \<in> set (index fixed_income_df) \<and> c \<in> set (columns t2) \<and> typed c
         then cell_scale (cells fixed_income_df l (snd c)) (cells t2 ''Fixed Income'' c)
         else cells t2 l c)"
    unfolding level_2_loop_def by blast
  have ret: "compute_total_allocations level_1_df equities_df fixed_income_df strategic = Inr t3"
    using t1 t2 t3 by (simp add: compute_total_allocations_def Let_def)
  have fi: "cells t2 ''Fixed Income'' c =
      (if ''Fixed Income'' \<in> set (keys strategic) then cells level_1_df ''Fixed Income'' c else None)"
    if "c \<in> set ?cols" for c
    using that d(2) by (simp add: v2 v1)
  have eq: "cells t1 ''Equities'' c =
      (if ''Equities'' \<in> set (keys strategic) then cells level_1_df ''Equities'' c else None)"
    if "c \<in> set ?cols" for c
    using that by (simp add: v1)
  have "cells t3 l c =
        (if l \<in> set (index fixed_income_df) \<and> typed c
         then cell_scale (cells fixed_income_df l (snd c))
                (if ''Fixed Income'' \<in> set (keys strategic) then cells level_1_df ''Fixed Income'' c else None)
         else if l \<in> set (index equities_df) \<and> typed c
         then cell_scale (cells equities_df l (snd c))
                (if ''Equities'' \<in> set (keys strategic) then cells level_1_df ''Equities'' c else None)
         else if l \<in> set (keys strategic) then cells level_1_df l c
         else None)"
    if c: "c \<in> set ?cols" for l c
  proof -
    have "cells t3 l c =
        (if l \<in> set (index fixed_income_df) \<and> typed c
         then cell_scale (cells fixed_income_df l (snd c)) (cells t2 ''Fixed Income'' c)
         else cells t2 l c)"
      using c by (simp add: v3 c2 c1)
    moreover have "cells t2 l c =
        (if l \<in> set (index equities_df) \<and> typed c
         then cell_scale (cells equities_df l (snd c)) (cells t1 ''Equities'' c)
         else cells t1 l c)"
      using c by (simp add: v2 c1)
    moreover have "cells t1 l c = (if l \<in> set (keys strategic) then cells level_1_df l c else None)"
      using c by (simp add: v1)
    ultimately show ?thesis
      by (simp only: fi [OF c] eq [OF c])
  qed
  moreover have "columns t3 = ?cols" using c3 c2 c1 by simp
  ultimately show ?thesis using ret by blast
qed


text \<open>The tables of the scenario\<close>

lemma example_well_formed:
  "well_formed_tables example_level_1 example_equities example_fixed_income example_strategic"
  by (simp add: well_formed_tables_def total_index_def example_level_1_def example_equities_def
      example_fixed_income_def example_strategic_def level_2_frame_def keys_def)

lemma example_keys:
  "keys example_strategic = [''Equities'', ''Fixed Income'', ''Cash'']"
  by (simp add: keys_def example_strategic_def)

lemma example_columns:
  "columns example_level_1 = [(''Moderate'', ''Strategic''), (''Moderate'', ''Tactical'')]"
  by (simp add: example_level_1_def)

lemma example_index:
  "index example_equities = [''Large Cap Growth'', ''Small Value'']"
  "index example_fixed_income = [''High Yield'', ''International'']"
  by (simp_all add: example_equities_def example_fixed_income_def level_2_frame_def keys_def)

lemma example_cells:
  "cells example_level_1 ''Equities'' (''Moderate'', ''Strategic'') = Some 60"
  "cells example_level_1 ''Equities'' (''Moderate'', ''Tactical'') = Some 62"
  "cells example_level_1 ''Fixed Income'' (''Moderate'', ''Strategic'') = Some 35"
  "cells example_level_1 ''Fixed Income'' (''Moderate'', ''Tactical'') = Some 33"
  "cells example_level_1 ''Cash'' (''Moderate'', ''Strategic'') = Some 5"
  "cells example_level_1 ''Cash'' (''Moderate'', ''Tactical'') = Some 5"
  "cells example_equities ''Large Cap Growth'' ''Strategic'' = Some 25"
  "cells example_equities ''Large Cap Growth'' ''Tactical'' = Some 30"
  "cells example_equities ''Small Value'' ''Strategic'' = Some 75"
  "cells example_equities ''Small Value'' ''Tactical'' = Some 70"
  "cells example_fixed_income ''High Yield'' ''Strategic'' = Some 40"
  "cells example_fixed_income ''High Yield'' ''Tactical'' = Some 45"
  "cells example_fixed_income ''International'' ''Strategic'' = Some 60"
  "cells example_fixed_income ''International'' ''Tactical'' = Some 55"
  by (simp_all add: example_level_1_def example_equities_def example_fixed_income_def
      level_2_frame_def keys_def)

lemma collision_well_formed:
  "well_formed_tables collision_level_1 collision_equities example_fixed_income collision_strategic"
  by (simp add: well_formed_tables_def total_index_def collision_level_1_def collision_equities_def
      example_fixed_income_def collision_strategic_def level_2_frame_def keys_def)

text \<open>
  Claim C2, as amended. On well-formed tables with the level-1 classes Equities and Fixed
  Income, \<^verbatim>\<open>compute_total_allocations\<close> returns a table in which, in every column of Type
  Strategic or Tactical, the row of every sub-class is
  \<open>own percentage * level-1 value of the parent / 100\<close> (\<open>cell_scale\<close>), for the sub-classes
  of Equities and for those of Fixed Income, and the row of every other level-1 class
  (Cash) whose name is not the name of a sub-class is its row of the level-1 table.
\<close>

theorem compute_total_allocations_rows:
  assumes wf: "well_formed_tables level_1_df equities_df fixed_income_df strategic"
    and e: "''Equities'' \<in> set (keys strategic)"
    and f: "''Fixed Income'' \<in> set (keys strategic)"
  shows "\<exists>total.
     compute_total_allocations level_1_df equities_df fixed_income_df strategic = Inr total \<and>
     (\<forall>s\<in>set (index equities_df). \<forall>c\<in>set (columns level_1_df). typed c \<longrightarrow>
        cells total s c = cell_scale (cells equities_df s (snd c)) (cells level_1_df ''Equities'' c)) \<and>
     (\<forall>s\<in>set (index fixed_income_df). \<forall>c\<in>set (columns level_1_df). typed c \<longrightarrow>
        cells total s c =
        cell_scale (cells fixed_income_df s (snd c)) (cells level_1_df ''Fixed Income'' c)) \<and>
     (\<forall>k\<in>set (keys strategic).
        k \<noteq> ''Equities'' \<and> k \<noteq> ''Fixed Income'' \<and>
        k \<notin> set (index equities_df) \<and> k \<notin> set (index fixed_income_df) \<longrightarrow>
        (\<forall>c\<in>set (columns level_1_df). cells total k c = cells level_1_df k c))"
proof -
  note d = well_formed_tablesD [OF wf]
  from compute_total_allocations_Inr [OF wf] obtain total where
    ret: "compute_total_allocations level_1_df equities_df fixed_income_df strategic = Inr total"
    and v: "\<And>l c. c \<in> set (columns level_1_df) \<Longrightarrow> cells total l c =
        (if l \<in> set (index fixed_income_df) \<and> typed c
         then cell_scale (cells fixed_income_df l (snd c))
                (if ''Fixed Income'' \<in> set (keys strategic) then cells level_1_df ''Fixed Income'' c else None)
         else if l \<in> set (index equities_df) \<and> typed c
         then cell_scale (cells equities_df l (snd c))
                (if ''Equities'' \<in> set (keys strategic) then cells level_1_df ''Equities'' c else None)
         else if l \<in> set (keys strategic) then cells level_1_df l c
         else None)"
    by blast
  have "cells total s c = cell_scale (cells equities_df s (snd c)) (cells level_1_df ''Equities'' c)"
    if "s \<in> set (index equities_df)" "c \<in> set (columns level_1_df)" "typed c" for s c
  proof -
    from that(1) d(4) have "s \<notin> set (index fixed_income_df)" by blast
    with that e show ?thesis by (simp add: v)
  qed
  moreover have "cells total s c =
      cell_scale (cells fixed_income_df s (snd c)) (cells level_1_df ''Fixed Income'' c)"
    if "s \<in> set (index fixed_income_df)" "c \<in> set (columns level_1_df)" "typed c" for s c
    using that f by (simp add: v)
  moreover have "cells total k c = cells level_1_df k c"
    if "k \<in> set (keys strategic)" "k \<notin> set (index equities_df)"
      "k \<notin> set (index fixed_income_df)" "c \<in> set (columns level_1_df)" for k c
    using that by (simp add: v)
  ultimately show ?thesis using ret by blast
qed

theorem compute_total_allocations_rows_witness:
  "\<exists>total.
     compute_total_allocations example_level_1 example_equities example_fixed_income
       example_strategic = Inr total \<and>
     cells total ''Large Cap Growth'' (''Moderate'', ''Tactical'') = Some (186 / 10) \<and>
     cells total ''High Yield'' (''Moderate'', ''Strategic'') = Some 14 \<and>
     cells total ''Cash'' (''Moderate'', ''Tactical'') = Some 5"
proof -
  have e: "''Equities'' \<in> set (keys example_strategic)"
    and f: "''Fixed Income'' \<in> set (keys example_strategic)"
    by (simp_all add: example_keys)
  from compute_total_allocations_rows [OF example_well_formed e f] show ?thesis
    by (auto simp: example_keys example_columns example_index example_cells typed_def
        cell_scale_def)
qed

theorem compute_total_allocations_rows_counterexample:
  "well_formed_tables collision_level_1 collision_equities example_fixed_income collision_strategic \<and>
   ''Tech'' \<in> set (keys collision_strategic) \<and>
   cells collision_level_1 ''Tech'' (''Moderate'', ''Strategic'') = Some 10 \<and>
   result_cell
     (compute_total_allocations collision_level_1 collision_equities example_fixed_income
        collision_strategic) ''Tech'' (''Moderate'', ''Strategic'') = Inr (Some 20)"
proof -
  from compute_total_allocations_Inr [OF collision_well_formed] obtain total where
    "compute_total_allocations collision_level_1 collision_equities example_fixed_income
       collision_strategic = Inr total"
    and "cells total ''Tech'' (''Moderate'', ''Strategic'') = Some 20"
    by (auto simp: collision_level_1_def collision_equities_def example_fixed_income_def
        collision_strategic_def level_2_frame_def keys_def typed_def cell_scale_def)
  then have "result_cell
     (compute_total_allocations collision_level_1 collision_equities example_fixed_income
        collision_strategic) ''Tech'' (''Moderate'', ''Strategic'') = Inr (Some 20)"
    by (simp add: result_cell_def)
  moreover have "''Tech'' \<in> set (keys collision_strategic)"
    by (simp add: keys_def collision_strategic_def)
  moreover have "cells collision_level_1 ''Tech'' (''Moderate'', ''Strategic'') = Some 10"
    by (simp add: collision_level_1_def)
  ultimately show ?thesis using collision_well_formed by blast
qed

text \<open>
  Claim C10, as amended. On well-formed tables the row of every level-1 class whose name
  is not the name of a sub-class is, in the table that \<^verbatim>\<open>compute_total_allocations\<close>
  returns, its row of the level-1 table, in every column; so it is for the parent classes
  Equities and Fixed Income, which no sub-class is named as: the level-2 loops write the
  rows labelled with the names of the sub-classes and no other row.
\<close>

theorem compute_total_allocations_level_1_rows:
  assumes wf: "well_formed_tables level_1_df equities_df fixed_income_df strategic"
  shows "\<exists>total.
     compute_total_allocations level_1_df equities_df fixed_income_df strategic = Inr total \<and>
     columns total = columns level_1_df \<and>
     (\<forall>k\<in>set (keys strategic).
        k \<notin> set (index equities_df) \<and> k \<notin> set (index fixed_income_df) \<longrightarrow>
        (\<forall>c\<in>set (columns level_1_df). cells total k c = cells level_1_df k c)) \<and>
     (''Equities'' \<in> set (keys strategic) \<longrightarrow>
        (\<forall>c\<in>set (columns level_1_df). cells total ''Equities'' c = cells level_1_df ''Equities'' c)) \<and>
     (''Fixed Income'' \<in> set (keys strategic) \<longrightarrow>
        (\<forall>c\<in>set (columns level_1_df).
           cells total ''Fixed Income'' c = cells level_1_df ''Fixed Income'' c))"
proof -
  note d = well_formed_tablesD [OF wf]
  from compute_total_allocations_Inr [OF wf] obtain total where
    ret: "compute_total_allocations level_1_df equities_df fixed_income_df strategic = Inr total"
    and c: "columns total = columns level_1_df"
    and v: "\<And>l c. c \<in> set (columns level_1_df) \<Longrightarrow> cells total l c =
        (if l \<in> set (index fixed_income_df) \<and> typed c
         then cell_scale (cells fixed_income_df l (snd c))
                (if ''Fixed Income'' \<in> set (keys strategic) then cells level_1_df ''Fixed Income'' c else None)
         else if l \<in> set (index equities_df) \<and> typed c
         then cell_scale (cells equities_df l (snd c))
                (if ''Equities'' \<in> set (keys strategic) then cells level_1_df ''Equities'' c else None)
         else if l \<in> set (keys strategic) then cells level_1_df l c
         else None)"
    by blast
  have row: "cells total k c = cells level_1_df k c"
    if "k \<in> set (keys strategic)" "k \<notin> set (index equities_df)"
      "k \<notin> set (index fixed_income_df)" "c \<in> set (columns level_1_df)" for k c
    using that by (simp add: v)
  have "cells total ''Equities'' c = cells level_1_df ''Equities'' c"
    if "''Equities'' \<in> set (keys strategic)" "c \<in> set (columns level_1_df)" for c
    using that d(1) d(11) by (intro row)
  moreover have "cells total ''Fixed Income'' c = cells level_1_df ''Fixed Income'' c"
    if "''Fixed Income'' \<in> set (keys strategic)" "c \<in> set (columns level_1_df)" for c
    using that d(2) d(3) by (intro row)
  ultimately show ?thesis using ret c row by blast
qed

theorem compute_total_allocations_level_1_rows_witness:
  "\<exists>total.
     compute_total_allocations example_level_1 example_equities example_fixed_income
       example_strategic = Inr total \<and>
     cells total ''Equities'' (''Moderate'', ''Tactical'') = Some 62 \<and>
     cells total ''Fixed Income'' (''Moderate'', ''Strategic'') = Some 35 \<and>
     cells total ''Cash'' (''Moderate'', ''Strategic'') = Some 5"
  using compute_total_allocations_level_1_rows [OF example_well_formed]
  by (auto simp: example_keys example_columns example_index example_cells)

theorem compute_total_allocations_level_1_rows_counterexample:
  "well_formed_tables collision_level_1 collision_equities example_fixed_income collision_strategic \<and>
   ''Tech'' \<in> set (keys collision_strategic) \<and>
   cells collision_level_1 ''Tech'' (''Moderate'', ''Tactical'') = Some 10 \<and>
   result_cell
     (compute_total_allocations collision_level_1 collision_equities example_fixed_income
        collision_strategic) ''Tech'' (''Moderate'', ''Tactical'') = Inr (Some (234 / 10))"
proof -
  from compute_total_allocations_Inr [OF collision_well_formed] obtain total where
    "compute_total_allocations collision_level_1 collision_equities example_fixed_income
       collision_strategic = Inr total"
    and "cells total ''Tech'' (''Moderate'', ''Tactical'') = Some (234 / 10)"
    by (auto simp: collision_level_1_def collision_equities_def example_fixed_income_def
        collision_strategic_def level_2_frame_def keys_def typed_def cell_scale_def)
  then have "result_cell
     (compute_total_allocations collision_level_1 collision_equities example_fixed_income
        collision_strategic) ''Tech'' (''Moderate'', ''Tactical'') = Inr (Some (234 / 10))"
    by (simp add: result_cell_def)
  moreover have "''Tech'' \<in> set (keys collision_strategic)"
    by (simp add: keys_def collision_strategic_def)
  moreover have "cells collision_level_1 ''Tech'' (''Moderate'', ''Tactical'') = Some 10"
    by (simp add: collision_level_1_def)
  ultimately show ?thesis using collision_well_formed by blast
qed




end
